theory Spec2Isabelle
  imports Complex_Main "HOL-Library.AList" "HOL-Library.Char_ord" "HOL-Library.List_Lexorder"
begin

section \<open>Text\<close>

text \<open>
  Python strings are modelled as \<open>string\<close>, one \<open>char\<close> per byte of the UTF-8 text.
  \<open>str.lower\<close> is modelled on ASCII: the letters A-Z move to a-z, every other byte stays.
\<close>

definition lower_char :: "char \<Rightarrow> char" where
  "lower_char c =
     (if 65 \<le> (of_char c :: nat) \<and> (of_char c :: nat) \<le> 90
      then char_of (of_char c + (32::nat)) else c)"

definition upper_char :: "char \<Rightarrow> char" where
  "upper_char c =
     (if 97 \<le> (of_char c :: nat) \<and> (of_char c :: nat) \<le> 122
      then char_of (of_char c - (32::nat)) else c)"

definition lower :: "string \<Rightarrow> string" where
  "lower s = map lower_char s"

text \<open>\<open>str.capitalize\<close>: first character upper-cased, the rest lower-cased.\<close>

fun capitalize :: "string \<Rightarrow> string" where
  "capitalize [] = []"
| "capitalize (c # cs) = upper_char c # lower cs"

text \<open>\<open>sep.join(xs)\<close>.\<close>

fun join :: "string \<Rightarrow> string list \<Rightarrow> string" where
  "join sep [] = []"
| "join sep [x] = x"
| "join sep (x # y # ys) = x @ sep @ join sep (y # ys)"

text \<open>The decimal text of a non-negative integer, as an f-string renders it.\<close>

fun str_nat :: "nat \<Rightarrow> string" where
  "str_nat n =
     (if n < 10 then [char_of (48 + n)]
      else str_nat (n div 10) @ [char_of (48 + n mod 10)])"

declare str_nat.simps [simp del]

text \<open>The UTF-8 bytes of the three pictographs the status texts start with.\<close>

definition cross_mark :: string where
  "cross_mark = [CHR 0xE2, CHR 0x9D, CHR 0x8C]"

definition check_mark :: string where
  "check_mark = [CHR 0xE2, CHR 0x9C, CHR 0x85]"

definition package_mark :: string where
  "package_mark = [CHR 0xF0, CHR 0x9F, CHR 0x93, CHR 0xA6]"

definition quote :: string where
  "quote = [CHR 0x27]"

section \<open>Poses, actions and the robot's collaborators\<close>

text \<open>
  A \<open>Pose\<close> holds six decimal coordinates. \<open>p @ (x, y, z, rx, ry, rz)\<close> of the robot
  library composes two transforms; the library is not part of the repository, so the
  composition stays symbolic as \<open>Matmul p (x, y, z, rx, ry, rz)\<close>.
\<close>

datatype pose =
    Pose rat rat rat rat rat rat
  | Matmul pose "int \<times> int \<times> int \<times> int \<times> int \<times> int"

datatype action = cartesian_ptp pose

text \<open>
  Every call the programs make on a collaborator (the robot session, the motion group,
  the controller's digital outputs, the event loop's sleep). \<open>Execute acts tcp\<close> stands
  for \<open>execute(joint_traj, tcp, actions=acts)\<close> with the trajectory that the plan of
  the same actions returned.
\<close>

datatype call =
    Nova_new
  | Nova_aenter
  | Nova_cell
  | Cell_controller string
  | Motion_group_aenter nat
  | Tcp_names
  | Plan "action list" "string option"
  | Execute "action list" "string option"
  | Write string bool
  | Sleep rat

text \<open>
  The collaborators' behaviour is an input: \<open>raises env h\<close> is the message of the
  exception that the last call of the history \<open>h\<close> ends with, if it raises;
  \<open>tcp_names env\<close> is the list that \<open>motion_group.tcp_names()\<close> returns.
  Only exceptions below \<open>Exception\<close> are modelled (what \<open>except Exception\<close> catches).
\<close>

record env =
  raises :: "call list \<Rightarrow> string option"
  tcp_names :: "string list"

text \<open>
  The world outside the program: the calls attempted so far (oldest first), the records
  written by \<open>logger.error\<close> (records of lower levels are not modelled), the present
  state of the two digital outputs \<open>(tool_out[0], tool_out[1])\<close> and every state they
  had before (newest first).
\<close>

record world =
  calls :: "call list"
  log :: "string list"
  tool_out :: "bool \<times> bool"
  tool_out_past :: "(bool \<times> bool) list"

definition set_tool_out :: "string \<Rightarrow> bool \<Rightarrow> bool \<times> bool \<Rightarrow> bool \<times> bool" where
  "set_tool_out key v io =
     (if key = ''tool_out[0]'' then (v, snd io)
      else if key = ''tool_out[1]'' then (fst io, v)
      else io)"

text \<open>A call that returns takes effect; a write that raises leaves the outputs as they were.\<close>

fun effect :: "call \<Rightarrow> world \<Rightarrow> world" where
  "effect (Write key v) w =
     w\<lparr>tool_out := set_tool_out key v (tool_out w),
       tool_out_past := tool_out w # tool_out_past w\<rparr>"
| "effect c w = w"

text \<open>\<open>asyncio.sleep\<close> raises nothing that \<open>except Exception\<close> catches.\<close>

definition failure :: "env \<Rightarrow> call \<Rightarrow> call list \<Rightarrow> string option" where
  "failure env c h = (case c of Sleep d \<Rightarrow> None | _ \<Rightarrow> raises env h)"

definition perform :: "env \<Rightarrow> call \<Rightarrow> world \<Rightarrow> (string \<times> world) + world" where
  "perform env c w =
     (let w' = w\<lparr>calls := calls w @ [c]\<rparr> in
      case failure env c (calls w') of
        Some e \<Rightarrow> Inl (e, w')
      | None \<Rightarrow> Inr (effect c w'))"

definition logger_error :: "string \<Rightarrow> world \<Rightarrow> world" where
  "logger_error msg w = w\<lparr>log := log w @ [msg]\<rparr>"

section \<open>The MCP bartender (programs/mcp\_bartender.py)\<close>

definition CONTROLLER_NAME :: string where
  "CONTROLLER_NAME = ''ur5e''"

definition START_POSE :: pose where
  "START_POSE = Pose 102.9 (-505.6) 483.4 (-1.496) (-2.5662) 0.0903"

definition COKE_0 :: pose where
  "COKE_0 = Pose (-170.6) (-609.6) 340 2.7917 (-1.4176) (-0.0117)"

definition COKE_1 :: pose where
  "COKE_1 = Pose (-162.3) (-501.4) 334.1 2.7916 (-1.4181) (-0.0115)"

definition REDBULL_0 :: pose where
  "REDBULL_0 = Pose (-64.4) (-484.6) 332.3 2.7873 (-1.4154) 0.0118"

definition REDBULL_1 :: pose where
  "REDBULL_1 = Pose (-74.2) (-606.2) 334.7 2.7871 (-1.4156) (-0.0122)"

definition FANTA_0 :: pose where
  "FANTA_0 = Pose 35.8 (-313.2) 333.9 2.7879 (-1.4062) 0.0075"

definition CUSTOMER :: pose where
  "CUSTOMER = Pose 103.9 (-699.5) 631.4 1.2941 2.558 (-0.8835)"

text \<open>A dict keeps insertion order, which the texts show: an association list.\<close>

type_synonym inventory = "(string \<times> pose list) list"

definition INITIAL_INVENTORY :: inventory where
  "INITIAL_INVENTORY =
     [(''coke'', [COKE_0, COKE_1]),
      (''redbull'', [REDBULL_0, REDBULL_1]),
      (''fanta'', [FANTA_0])]"

datatype handle = Nova_handle | Controller_handle string | Motion_group_handle string nat

record bartender =
  inventory :: inventory
  nova_instance :: "handle option"
  controller :: "handle option"
  motion_group :: "handle option"
  tcp :: "string option"
  initialized :: bool


text \<open>
  A method call through a field that is still \<open>None\<close> raises AttributeError before any
  collaborator is reached.
\<close>

fun method_name :: "call \<Rightarrow> string" where
  "method_name Nova_new = ''Nova''"
| "method_name Nova_aenter = ''__aenter__''"
| "method_name Nova_cell = ''cell''"
| "method_name (Cell_controller n) = ''controller''"
| "method_name (Motion_group_aenter i) = ''__aenter__''"
| "method_name Tcp_names = ''tcp_names''"
| "method_name (Plan a t) = ''plan''"
| "method_name (Execute a t) = ''execute''"
| "method_name (Write k v) = ''write''"
| "method_name (Sleep d) = ''sleep''"

definition attribute_error :: "call \<Rightarrow> string" where
  "attribute_error c =
     quote @ ''NoneType'' @ quote @ '' object has no attribute '' @ quote @ method_name c @ quote"

definition invoke :: "env \<Rightarrow> handle option \<Rightarrow> call \<Rightarrow> world \<Rightarrow> (string \<times> world) + world" where
  "invoke env h c w =
     (case h of None \<Rightarrow> Inl (attribute_error c, w) | Some x \<Rightarrow> perform env c w)"

text \<open>Which field of the bartender a call of \<open>serve_beverage\<close> and \<open>go_home\<close> goes through.\<close>

fun issue :: "env \<Rightarrow> bartender \<Rightarrow> call \<Rightarrow> world \<Rightarrow> (string \<times> world) + world" where
  "issue env b (Plan a t) w = invoke env (motion_group b) (Plan a t) w"
| "issue env b (Execute a t) w = invoke env (motion_group b) (Execute a t) w"
| "issue env b (Write k v) w = invoke env (controller b) (Write k v) w"
| "issue env b c w = perform env c w"

text \<open>
  A block of statements inside \<open>try\<close>: the calls run in order, and the first one that
  raises ends the block with its message.
\<close>

fun run_block :: "env \<Rightarrow> bartender \<Rightarrow> call list \<Rightarrow> world \<Rightarrow> (string \<times> world) + world" where
  "run_block env b [] w = Inr w"
| "run_block env b (c # cs) w =
     (case issue env b c w of
        Inl ew \<Rightarrow> Inl ew
      | Inr w' \<Rightarrow> run_block env b cs w')"

text \<open>\<open>plan\<close> then \<open>execute\<close> of one list of actions.\<close>

definition move :: "action list \<Rightarrow> string option \<Rightarrow> call list" where
  "move actions t = [Plan actions t, Execute actions t]"

text \<open>The body of the \<open>try\<close> of \<open>serve_beverage\<close>, lines 129-162.\<close>

definition serve_block :: "pose \<Rightarrow> string option \<Rightarrow> call list" where
  "serve_block target_pose t =
     move [cartesian_ptp START_POSE,
           cartesian_ptp (Matmul target_pose (0, 0, -70, 0, 0, 0)),
           cartesian_ptp target_pose] t
     @ [Write ''tool_out[1]'' False, Write ''tool_out[0]'' True, Sleep 3.0]
     @ move [cartesian_ptp (Matmul target_pose (0, 0, -70, 0, 0, 0)),
             cartesian_ptp CUSTOMER] t
     @ [Sleep 2.0, Write ''tool_out[0]'' False, Write ''tool_out[1]'' True, Sleep 4.0]
     @ move [cartesian_ptp START_POSE] t"

definition not_initialized_msg :: string where
  "not_initialized_msg = cross_mark @ '' Robot not initialized''"

definition unknown_msg :: "string \<Rightarrow> string list \<Rightarrow> string" where
  "unknown_msg beverage keys =
     cross_mark @ '' Unknown beverage '' @ quote @ beverage @ quote
       @ ''. Available: '' @ join '', '' keys"

definition out_of_stock_msg :: "string \<Rightarrow> string" where
  "out_of_stock_msg beverage = cross_mark @ '' Sorry, '' @ beverage @ '' is out of stock!''"

definition served_msg :: "string \<Rightarrow> nat \<Rightarrow> string" where
  "served_msg beverage remaining =
     check_mark @ '' Successfully served '' @ beverage @ ''! ('' @ str_nat remaining
       @ '' left in stock)''"

definition error_msg :: "string \<Rightarrow> string \<Rightarrow> string" where
  "error_msg beverage e = cross_mark @ '' Error serving '' @ beverage @ '': '' @ e"

text \<open>The recovery of \<open>serve_beverage\<close>, lines 170-175: one move home, its failure logged.\<close>

definition recover :: "env \<Rightarrow> bartender \<Rightarrow> world \<Rightarrow> world" where
  "recover env b w =
     (case run_block env b (move [cartesian_ptp START_POSE] (tcp b)) w of
        Inr w' \<Rightarrow> w'
      | Inl (recovery_error, w') \<Rightarrow> logger_error (''Recovery failed: '' @ recovery_error) w')"

text \<open>What \<open>serve_beverage\<close> does once the pose is popped, lines 128-177.\<close>

definition serve_popped ::
  "env \<Rightarrow> string \<Rightarrow> pose \<Rightarrow> nat \<Rightarrow> bartender \<times> world \<Rightarrow> string \<times> (bartender \<times> world)" where
  "serve_popped env beverage target_pose remaining bw =
     (case run_block env (fst bw) (serve_block target_pose (tcp (fst bw))) (snd bw) of
        Inr w' \<Rightarrow> (served_msg beverage remaining, (fst bw, w'))
      | Inl (e, w1) \<Rightarrow>
          (error_msg beverage e,
           (fst bw,
            recover env (fst bw)
              (logger_error (''Error serving '' @ beverage @ '': '' @ e) w1))))"

definition serve_beverage ::
  "env \<Rightarrow> string \<Rightarrow> bartender \<times> world \<Rightarrow> string \<times> (bartender \<times> world)" where
  "serve_beverage env beverage0 bw =
     (let b = fst bw; w = snd bw in
      if \<not> initialized b then (not_initialized_msg, (b, w))
      else
        let beverage = lower beverage0 in
        case map_of (inventory b) beverage of
          None \<Rightarrow> (unknown_msg beverage (map fst (inventory b)), (b, w))
        | Some [] \<Rightarrow> (out_of_stock_msg beverage, (b, w))
        | Some (target_pose # rest) \<Rightarrow>
            serve_popped env beverage target_pose (length rest)
              (b\<lparr>inventory := AList.update beverage rest (inventory b)\<rparr>, w))"

text \<open>\<open>initialize\<close>, lines 66-100. The result is the message of the exception it raises, if any.\<close>

definition fail_init ::
  "string \<Rightarrow> bartender \<Rightarrow> world \<Rightarrow> string option \<times> (bartender \<times> world)" where
  "fail_init e b w = (Some e, (b, logger_error (''Failed to initialize robot: '' @ e) w))"

definition connect :: "env \<Rightarrow> bartender \<times> world \<Rightarrow> string option \<times> (bartender \<times> world)" where
  "connect env bw =
     (let b = fst bw in
      case perform env Nova_new (snd bw) of
        Inl (e, w1) \<Rightarrow> fail_init e b w1
      | Inr w1 \<Rightarrow>
     (let b1 = b\<lparr>nova_instance := Some Nova_handle\<rparr> in
      case perform env Nova_aenter w1 of
        Inl (e, w2) \<Rightarrow> fail_init e b1 w2
      | Inr w2 \<Rightarrow>
     (case perform env Nova_cell w2 of
        Inl (e, w3) \<Rightarrow> fail_init e b1 w3
      | Inr w3 \<Rightarrow>
     (case perform env (Cell_controller CONTROLLER_NAME) w3 of
        Inl (e, w4) \<Rightarrow> fail_init e b1 w4
      | Inr w4 \<Rightarrow>
     (let b2 = b1\<lparr>controller := Some (Controller_handle CONTROLLER_NAME)\<rparr> in
      case perform env (Motion_group_aenter 0) w4 of
        Inl (e, w5) \<Rightarrow> fail_init e b2 w5
      | Inr w5 \<Rightarrow>
     (let b3 = b2\<lparr>motion_group := Some (Motion_group_handle CONTROLLER_NAME 0)\<rparr> in
      case perform env Tcp_names w5 of
        Inl (e, w6) \<Rightarrow> fail_init e b3 w6
      | Inr w6 \<Rightarrow>
          if length (tcp_names env) \<le> 1 then fail_init ''list index out of range'' b3 w6
          else
     (let b4 = b3\<lparr>tcp := Some (tcp_names env ! 1)\<rparr> in
      case run_block env b4 (move [cartesian_ptp START_POSE] (tcp b4)) w6 of
        Inl (e, w7) \<Rightarrow> fail_init e b4 w7
      | Inr w7 \<Rightarrow> (None, (b4\<lparr>initialized := True\<rparr>, w7)))))))))"

text \<open>
  The warning of line 69 is below the level the module configures
  (\<open>logging.basicConfig(stream=sys.stderr, level=logging.ERROR)\<close>): no record is written.
\<close>

definition initialize :: "env \<Rightarrow> bartender \<times> world \<Rightarrow> string option \<times> (bartender \<times> world)" where
  "initialize env bw =
     (if initialized (fst bw) then (None, bw)
      else connect env ((fst bw)\<lparr>inventory := INITIAL_INVENTORY\<rparr>, snd bw))"

definition newline :: string where
  "newline = [CHR 0x0A]"

definition inventory_line :: "string \<times> pose list \<Rightarrow> string" where
  "inventory_line item =
     (let count = length (snd item);
          status = (if count > 0 then check_mark else cross_mark)
      in ''  '' @ status @ '' '' @ capitalize (fst item) @ '': '' @ str_nat count @ '' available'')"

definition check_inventory :: "bartender \<Rightarrow> string" where
  "check_inventory b =
     (if inventory b = [] then package_mark @ '' Inventory is empty''
      else join newline
             ((package_mark @ '' Current Inventory:'')
              # map inventory_line (sort_key fst (inventory b))))"

definition go_home :: "env \<Rightarrow> bartender \<times> world \<Rightarrow> string \<times> (bartender \<times> world)" where
  "go_home env bw =
     (if \<not> initialized (fst bw) then (not_initialized_msg, bw)
      else
        case run_block env (fst bw) (move [cartesian_ptp START_POSE] (tcp (fst bw))) (snd bw) of
          Inr w' \<Rightarrow> (check_mark @ '' Robot returned to home position'', (fst bw, w'))
        | Inl (e, w') \<Rightarrow>
            (cross_mark @ '' Error: '' @ e, (fst bw, logger_error (''Error going home: '' @ e) w')))"

text \<open>\<open>arguments.get(key, default)\<close> on a dict of strings.\<close>

definition dict_get :: "(string \<times> string) list \<Rightarrow> string \<Rightarrow> string \<Rightarrow> string" where
  "dict_get arguments key dflt = (case map_of arguments key of None \<Rightarrow> dflt | Some v \<Rightarrow> v)"

text \<open>The dispatch of \<open>handle_call_tool\<close>, lines 273-284; the result is the text returned.\<close>

definition dispatch ::
  "env \<Rightarrow> string \<Rightarrow> (string \<times> string) list \<Rightarrow> bartender \<times> world \<Rightarrow> string \<times> (bartender \<times> world)" where
  "dispatch env name arguments bw =
     (if name = ''serve_drink'' then serve_beverage env (dict_get arguments ''beverage'' []) bw
      else if name = ''check_inventory'' then (check_inventory (fst bw), bw)
      else if name = ''go_home'' then go_home env bw
      else (cross_mark @ '' Unknown tool: '' @ name, bw))"

definition handle_call_tool ::
  "env \<Rightarrow> string \<Rightarrow> (string \<times> string) list \<Rightarrow> bartender \<times> world \<Rightarrow> string \<times> (bartender \<times> world)" where
  "handle_call_tool env name arguments bw =
     (if \<not> initialized (fst bw) then
        (case initialize env bw of
           (Some e, (b', w')) \<Rightarrow>
             (cross_mark @ '' Failed to initialize robot: '' @ e,
              (b', logger_error (cross_mark @ '' Failed to initialize robot: '' @ e) w'))
         | (None, bw') \<Rightarrow> dispatch env name arguments bw')
      else dispatch env name arguments bw)"


text \<open>The number of poses left for a beverage; a beverage that is no key has none.\<close>

definition stock :: "bartender \<Rightarrow> string \<Rightarrow> nat" where
  "stock b beverage = (case map_of (inventory b) beverage of None \<Rightarrow> 0 | Some poses \<Rightarrow> length poses)"

text \<open>A status text reports a failure when it starts with the cross mark.\<close>

definition is_failure :: "string \<Rightarrow> bool" where
  "is_failure s = (take 3 s = cross_mark)"

section \<open>The voice bartender (start\_here\_voice.py)\<close>

definition start_pose :: pose where
  "start_pose = Pose 102.9 (-505.6) 483.4 (-1.496) (-2.5662) 0.0903"

definition coke1 :: pose where
  "coke1 = Pose 56.8 (-304.2) 323.7 2.7788 (-1.4014) 0.011"

definition coke0 :: pose where
  "coke0 = Pose 56.8 (-387.9) 323.7 2.7788 (-1.4013) 0.0111"

definition redbull0 :: pose where
  "redbull0 = Pose (-30) (-297.8) 320.9 2.7793 (-1.401) 0.0113"

definition redbull1 :: pose where
  "redbull1 = Pose (-29) (-385.3) 320.9 2.779 (-1.4015) 0.011"

definition fanta0 :: pose where
  "fanta0 = Pose (-119.5) (-387.7) 321 2.7789 (-1.4012) 0.011"

definition customer :: pose where
  "customer = Pose 103.9 (-699.5) 631.4 1.2941 2.558 (-0.8835)"

definition INVENTORY :: inventory where
  "INVENTORY =
     [(''coke'', [coke0, coke1]),
      (''redbull'', [redbull0, redbull1]),
      (''fanta'', [fanta0]),
      (''sting'', [redbull0, redbull1])]"

subsection \<open>The gripper\<close>

definition initialize_grippers :: "call list" where
  "initialize_grippers =
     [Write ''tool_out[0]'' True, Write ''tool_out[1]'' False, Write ''tool_out[0]'' False]"

definition close_grippers :: "call list" where
  "close_grippers = [Write ''tool_out[0]'' False, Write ''tool_out[1]'' True]"

definition open_grippers :: "call list" where
  "open_grippers = [Write ''tool_out[1]'' False, Write ''tool_out[0]'' True]"

subsection \<open>One serve\<close>

text \<open>
  Here the motion group and the controller are arguments, live objects of the enclosing
  \<open>async with\<close>: every call reaches its collaborator.
\<close>

fun perform_all :: "env \<Rightarrow> call list \<Rightarrow> world \<Rightarrow> (string \<times> world) + world" where
  "perform_all env [] w = Inr w"
| "perform_all env (c # cs) w =
     (case perform env c w of
        Inl ew \<Rightarrow> Inl ew
      | Inr w' \<Rightarrow> perform_all env cs w')"

text \<open>The body of the \<open>try\<close> of \<open>serve_beverage\<close>, lines 197-241.\<close>

definition serve_block_voice :: "pose \<Rightarrow> string \<Rightarrow> call list" where
  "serve_block_voice target_pose t =
     initialize_grippers
     @ move [cartesian_ptp start_pose,
             cartesian_ptp (Matmul target_pose (0, 0, -70, 0, 0, 0)),
             cartesian_ptp target_pose] (Some t)
     @ close_grippers
     @ [Sleep 3.0]
     @ move [cartesian_ptp (Matmul target_pose (0, 0, -200, 0, 0, 0)),
             cartesian_ptp customer] (Some t)
     @ [Sleep 2.0]
     @ open_grippers
     @ [Sleep 4.0]
     @ move [cartesian_ptp start_pose] (Some t)"

definition recover_voice :: "env \<Rightarrow> string \<Rightarrow> world \<Rightarrow> world" where
  "recover_voice env t w =
     (case perform_all env (move [cartesian_ptp start_pose] (Some t)) w of
        Inr w' \<Rightarrow> w'
      | Inl (recovery_error, w') \<Rightarrow>
          logger_error (''Could not return home: '' @ recovery_error) w')"

definition serve_popped_voice ::
  "env \<Rightarrow> string \<Rightarrow> pose \<Rightarrow> string \<Rightarrow> inventory \<times> world \<Rightarrow> bool \<times> (inventory \<times> world)" where
  "serve_popped_voice env beverage target_pose t iw =
     (case perform_all env (serve_block_voice target_pose t) (snd iw) of
        Inr w' \<Rightarrow> (True, (fst iw, w'))
      | Inl (e, w1) \<Rightarrow>
          (False,
           (fst iw,
            recover_voice env t (logger_error (''Error serving '' @ beverage @ '': '' @ e) w1))))"

definition serve_beverage_voice ::
  "env \<Rightarrow> string \<Rightarrow> string \<Rightarrow> inventory \<times> world \<Rightarrow> bool \<times> (inventory \<times> world)" where
  "serve_beverage_voice env beverage t iw =
     (case map_of (fst iw) beverage of
        None \<Rightarrow> (False, (fst iw, logger_error (''Unknown beverage: '' @ beverage) (snd iw)))
      | Some [] \<Rightarrow>
          (False, (fst iw, logger_error (''Sorry, '' @ beverage @ '' is out of stock!'') (snd iw)))
      | Some (target_pose # rest) \<Rightarrow>
          serve_popped_voice env beverage target_pose t
            (AList.update beverage rest (fst iw), snd iw))"

subsection \<open>The listener\<close>

text \<open>
  What the audio collaborators answer during one iteration of the listening loop, should
  they be asked: the recorder's read, the wake-word detector, the recognizer and its
  inference. Each returns a value or raises.
\<close>

datatype 'a reply = Returns 'a | Raises string

record inference =
  is_understood :: bool
  intent :: string
  slots :: "(string \<times> string) list"

record frame =
  recorder_read :: "unit reply"
  porcupine_process :: "int reply"
  rhino_process :: "bool reply"
  rhino_get_inference :: "inference reply"

datatype recognition = Wake | Command

record listener =
  state :: recognition
  running :: bool

text \<open>
  The shared state of the program: the listener, \<open>command_queue\<close> (oldest token first),
  the consumer's inventory, the world, and the tokens the consumer has handed to
  \<open>serve_beverage\<close> so far (oldest first).
\<close>

record system =
  voice :: listener
  command_queue :: "string list"
  stocked :: inventory
  outside :: world
  handed :: "string list"

text \<open>The \<open>except\<close> of \<open>_listen_loop\<close>, lines 151-153.\<close>

definition listener_error :: "string \<Rightarrow> system \<Rightarrow> system" where
  "listener_error e s =
     s\<lparr>voice := (voice s)\<lparr>running := False\<rparr>,
       outside := logger_error (''Error in voice listener: '' @ e) (outside s)\<rparr>"

text \<open>What a finalized inference does, lines 133-148.\<close>

definition finalize :: "inference \<Rightarrow> system \<Rightarrow> system" where
  "finalize inference s =
     (let s' =
        (if is_understood inference then
           (case map_of (slots inference) ''beverage'' of
              Some v \<Rightarrow> s\<lparr>command_queue := command_queue s @ [lower v]\<rparr>
            | None \<Rightarrow> s)
         else s)
      in s'\<lparr>voice := (voice s')\<lparr>state := Wake\<rparr>\<rparr>)"

text \<open>One iteration of the \<open>while\<close> of \<open>_listen_loop\<close>, lines 122-149.\<close>

definition listen :: "frame \<Rightarrow> system \<Rightarrow> system" where
  "listen f s =
     (case recorder_read f of
        Raises e \<Rightarrow> listener_error e s
      | Returns pcm \<Rightarrow>
     (case state (voice s) of
        Wake \<Rightarrow>
          (case porcupine_process f of
             Raises e \<Rightarrow> listener_error e s
           | Returns keyword_index \<Rightarrow>
               if keyword_index \<ge> 0 then s\<lparr>voice := (voice s)\<lparr>state := Command\<rparr>\<rparr> else s)
      | Command \<Rightarrow>
          (case rhino_process f of
             Raises e \<Rightarrow> listener_error e s
           | Returns is_finalized \<Rightarrow>
               if is_finalized then
                 (case rhino_get_inference f of
                    Raises e \<Rightarrow> listener_error e s
                  | Returns inference \<Rightarrow> finalize inference s)
               else s)))"

text \<open>
  One iteration of the consumer's \<open>while True\<close>, lines 315-332: a token is taken from the
  head of the queue and served; when the queue is empty, \<open>get\<close> raises and the loop sleeps.
\<close>

definition poll :: "env \<Rightarrow> string \<Rightarrow> system \<Rightarrow> system" where
  "poll env t s =
     (case command_queue s of
        [] \<Rightarrow>
          (case perform env (Sleep 0.1) (outside s) of
             Inr w' \<Rightarrow> s\<lparr>outside := w'\<rparr>
           | Inl ew \<Rightarrow> s)
      | beverage # rest \<Rightarrow>
          (let r = serve_beverage_voice env beverage t (stocked s, outside s)
           in s\<lparr>command_queue := rest, stocked := fst (snd r), outside := snd (snd r),
                handed := handed s @ [beverage]\<rparr>))"

text \<open>
  The two threads, interleaved: each event is one iteration of one of the two loops. The
  listening loop ends when \<open>running\<close> is false; frames that come later are not read.
\<close>

datatype event = Hear frame | Poll

fun advance :: "env \<Rightarrow> string \<Rightarrow> event \<Rightarrow> system \<Rightarrow> system" where
  "advance env t (Hear f) s = (if running (voice s) then listen f s else s)"
| "advance env t Poll s = poll env t s"

fun run :: "env \<Rightarrow> string \<Rightarrow> event list \<Rightarrow> system \<Rightarrow> system" where
  "run env t [] s = s"
| "run env t (e # es) s = run env t es (advance env t e s)"

text \<open>The listening loop alone, over the frames of a schedule.\<close>

fun frames :: "event list \<Rightarrow> frame list" where
  "frames [] = []"
| "frames (Hear f # es) = f # frames es"
| "frames (Poll # es) = frames es"


section \<open>The pipeline of steps\<close>




section \<open>The states of the two outputs\<close>

text \<open>
  The states the outputs pass through when every call of a list returns; the states the
  outputs of a world have had, the present one included; and the world a block ends in,
  whether it returned or raised.
\<close>

fun line_states :: "call list \<Rightarrow> bool \<times> bool \<Rightarrow> (bool \<times> bool) list" where
  "line_states [] io = []"
| "line_states (Write key v # cs) io =
     set_tool_out key v io # line_states cs (set_tool_out key v io)"
| "line_states (c # cs) io = line_states cs io"

definition seen :: "world \<Rightarrow> (bool \<times> bool) set" where
  "seen w = set (tool_out w # tool_out_past w)"

definition after :: "(string \<times> world) + world \<Rightarrow> world" where
  "after r = (case r of Inl (e, w) \<Rightarrow> w | Inr w \<Rightarrow> w)"

section \<open>Sessions of tool calls\<close>




section \<open>Sample collaborators and states\<close>

text \<open>A robot on which no call ever raises, with two tool centre points.\<close>

definition quiet :: env where
  "quiet = \<lparr>raises = (\<lambda>h. None), tcp_names = [''Flange'', ''Gripper'']\<rparr>"

text \<open>A robot whose motion group raises on every trajectory that ends at the customer.\<close>

definition jammed :: env where
  "jammed =
     \<lparr>raises = (\<lambda>h. case last h of
                  Execute actions t \<Rightarrow>
                    if cartesian_ptp CUSTOMER \<in> set actions then Some ''collision detected''
                    else None
                | _ \<Rightarrow> None),
      tcp_names = [''Flange'', ''Gripper'']\<rparr>"

text \<open>A robot whose motion group raises on every execution, home included.\<close>

definition stuck :: env where
  "stuck =
     \<lparr>raises = (\<lambda>h. case last h of
                  Execute actions t \<Rightarrow>
                    if actions = [cartesian_ptp START_POSE] then Some ''home unreachable''
                    else Some ''pick unreachable''
                | _ \<Rightarrow> None),
      tcp_names = [''Flange'', ''Gripper'']\<rparr>"

definition world0 :: world where
  "world0 = \<lparr>calls = [], log = [], tool_out = (False, False), tool_out_past = []\<rparr>"

text \<open>The bartender as a successful \<open>initialize\<close> on \<open>quiet\<close> leaves it.\<close>

definition ready :: bartender where
  "ready =
     \<lparr>inventory = INITIAL_INVENTORY, nova_instance = Some Nova_handle,
      controller = Some (Controller_handle CONTROLLER_NAME),
      motion_group = Some (Motion_group_handle CONTROLLER_NAME 0),
      tcp = Some ''Gripper'', initialized = True\<rparr>"


text \<open>
  A listener that has heard the wake word, with one token waiting; a frame on which the
  recognizer finalizes an understood order for coke; a frame with the wake word.
\<close>

definition awake :: system where
  "awake =
     \<lparr>voice = \<lparr>state = Command, running = True\<rparr>, command_queue = [''fanta''],
      stocked = INVENTORY, outside = world0, handed = []\<rparr>"

definition order_coke :: frame where
  "order_coke =
     \<lparr>recorder_read = Returns (), porcupine_process = Returns (-1),
      rhino_process = Returns True,
      rhino_get_inference =
        Returns \<lparr>is_understood = True, intent = ''orderBeverage'', slots = [(''beverage'', ''Coke'')]\<rparr>\<rparr>"

definition wake_word :: frame where
  "wake_word =
     \<lparr>recorder_read = Returns (), porcupine_process = Returns 0,
      rhino_process = Returns False,
      rhino_get_inference = Raises ''no inference''\<rparr>"

section \<open>Evaluations used below\<close>

lemma lower_STING: "lower ''STING'' = ''sting''"
  by code_simp

lemma lower_Fanta: "lower ''Fanta'' = ''fanta''"
  by code_simp

lemma lower_Coke: "lower ''Coke'' = ''coke''"
  by code_simp


lemma serve_jammed_Coke:
  "fst (serve_beverage jammed ''Coke'' (ready, world0)) = error_msg ''coke'' ''collision detected''"
  by code_simp

lemma ready_coke: "map_of (inventory ready) ''coke'' = Some [COKE_0, COKE_1]"
  by (simp add: ready_def INITIAL_INVENTORY_def)

lemma ready_fields:
  "initialized ready" "motion_group ready = Some (Motion_group_handle CONTROLLER_NAME 0)"
  "controller ready = Some (Controller_handle CONTROLLER_NAME)" "tcp ready = Some ''Gripper''"
  by (simp_all add: ready_def)

lemma jammed_first_failure:
  "failure jammed (serve_block COKE_0 (Some ''Gripper'') ! 6)
     (calls world0 @ take (Suc 6) (serve_block COKE_0 (Some ''Gripper''))) = Some ''collision detected''"
  "\<forall>j<6. failure jammed (serve_block COKE_0 (Some ''Gripper'') ! j)
     (calls world0 @ take (Suc j) (serve_block COKE_0 (Some ''Gripper''))) = None"
  by code_simp+

lemma jammed_recovery:
  "raises jammed ((calls world0 @ take (Suc 6) (serve_block COKE_0 (Some ''Gripper'')))
      @ [Plan [cartesian_ptp START_POSE] (Some ''Gripper'')]) = None"
  "raises jammed ((calls world0 @ take (Suc 6) (serve_block COKE_0 (Some ''Gripper'')))
      @ [Plan [cartesian_ptp START_POSE] (Some ''Gripper''),
         Execute [cartesian_ptp START_POSE] (Some ''Gripper'')]) = None"
  by code_simp+

lemma stuck_first_failure:
  "failure stuck (serve_block COKE_0 (Some ''Gripper'') ! 1)
     (calls world0 @ take (Suc 1) (serve_block COKE_0 (Some ''Gripper''))) = Some ''pick unreachable''"
  "\<forall>j<1. failure stuck (serve_block COKE_0 (Some ''Gripper'') ! j)
     (calls world0 @ take (Suc j) (serve_block COKE_0 (Some ''Gripper''))) = None"
  by code_simp+

lemma stuck_recovery:
  "raises stuck ((calls world0 @ take (Suc 1) (serve_block COKE_0 (Some ''Gripper'')))
      @ [Plan [cartesian_ptp START_POSE] (Some ''Gripper'')]) = None"
  "raises stuck ((calls world0 @ take (Suc 1) (serve_block COKE_0 (Some ''Gripper'')))
      @ [Plan [cartesian_ptp START_POSE] (Some ''Gripper''),
         Execute [cartesian_ptp START_POSE] (Some ''Gripper'')]) = Some ''home unreachable''"
  by code_simp+

lemma serve_block_length: "length (serve_block p t) = 13"
  by (simp add: serve_block_def move_def)



lemma stock_ready_coke: "stock ready ''coke'' = 2"
  by (simp add: stock_def ready_coke)


lemma ready_no_sting: "map_of (inventory ready) ''sting'' = None"
  by (simp add: ready_def INITIAL_INVENTORY_def)

lemma ready_keys: "map fst (inventory ready) = [''coke'', ''redbull'', ''fanta'']"
  by (simp add: ready_def INITIAL_INVENTORY_def)

section \<open>Blocks of calls\<close>

lemma issue_connected:
  "motion_group b = Some m \<Longrightarrow> controller b = Some c \<Longrightarrow> issue env b x w = perform env x w"
  by (cases x) (simp_all add: invoke_def)

lemma run_block_connected:
  "motion_group b = Some m \<Longrightarrow> controller b = Some c \<Longrightarrow> run_block env b cs w = perform_all env cs w"
  by (induction cs arbitrary: w) (simp_all add: issue_connected split: sum.splits)

lemma perform_calls:
  "perform env c w = Inr w' \<Longrightarrow> calls w' = calls w @ [c] \<and> log w' = log w"
  "perform env c w = Inl (e, w') \<Longrightarrow> w' = w\<lparr>calls := calls w @ [c]\<rparr> \<and> failure env c (calls w @ [c]) = Some e"
  by (cases c; auto simp: perform_def Let_def split: option.splits)+

lemma perform_Inr_iff:
  "(\<exists>w'. perform env c w = Inr w') \<longleftrightarrow> failure env c (calls w @ [c]) = None"
  by (auto simp: perform_def Let_def split: option.splits)

lemma perform_all_append:
  "perform_all env (xs @ ys) w =
     (case perform_all env xs w of Inl ew \<Rightarrow> Inl ew | Inr w' \<Rightarrow> perform_all env ys w')"
  by (induction xs arbitrary: w) (simp_all split: sum.splits)


text \<open>The first call that raises ends the block.\<close>

lemma perform_all_first_failure:
  assumes "k < length cs"
    and "failure env (cs ! k) (calls w @ take (Suc k) cs) = Some e"
    and "\<forall>j<k. failure env (cs ! j) (calls w @ take (Suc j) cs) = None"
  shows "\<exists>w1. perform_all env cs w = Inl (e, w1) \<and> calls w1 = calls w @ take (Suc k) cs \<and> log w1 = log w"
  using assms
proof (induction cs arbitrary: w k)
  case Nil then show ?case by simp
next
  case (Cons c cs)
  show ?case
  proof (cases k)
    case 0
    with Cons.prems show ?thesis
      by (auto simp: perform_def Let_def)
  next
    case (Suc k')
    from Cons.prems(3) Suc have "failure env c (calls w @ [c]) = None"
      by (auto dest: spec[of _ 0])
    then obtain w1 where p: "perform env c w = Inr w1"
      using perform_Inr_iff by blast
    then have c1: "calls w1 = calls w @ [c]" and l1: "log w1 = log w"
      using perform_calls(1) by auto
    have a: "k' < length cs" using Cons.prems(1) Suc by simp
    have b: "failure env (cs ! k') (calls w1 @ take (Suc k') cs) = Some e"
      using Cons.prems(2) Suc c1 by simp
    have c: "\<forall>j<k'. failure env (cs ! j) (calls w1 @ take (Suc j) cs) = None"
    proof (intro allI impI)
      fix j assume "j < k'"
      then have "Suc j < k" using Suc by simp
      from Cons.prems(3)[rule_format, OF this] show "failure env (cs ! j) (calls w1 @ take (Suc j) cs) = None"
        using c1 by simp
    qed
    from Cons.IH[OF a b c] p Suc c1 l1 show ?thesis by auto
  qed
qed

section \<open>Facts about one serve\<close>

lemma msgs_distinct:
  "served_msg x n \<noteq> error_msg y e"
  "not_initialized_msg \<noteq> error_msg y e"
  "unknown_msg x ks \<noteq> error_msg y e"
  "out_of_stock_msg x \<noteq> error_msg y e"
  by (simp_all add: served_msg_def error_msg_def not_initialized_msg_def unknown_msg_def
      out_of_stock_msg_def check_mark_def cross_mark_def)


lemma serve_beverage_pop:
  "initialized b \<Longrightarrow> map_of (inventory b) (lower t) = Some (p # ps) \<Longrightarrow>
   serve_beverage env t (b, w) =
     serve_popped env (lower t) p (length ps)
       (b\<lparr>inventory := AList.update (lower t) ps (inventory b)\<rparr>, w)"
  by (simp add: serve_beverage_def Let_def)

lemma recover_result:
  assumes "motion_group b = Some m" "controller b = Some c"
  shows "recover env b w =
     (case raises env (calls w @ [Plan [cartesian_ptp START_POSE] (tcp b)]) of
        Some e' \<Rightarrow>
          w\<lparr>calls := calls w @ [Plan [cartesian_ptp START_POSE] (tcp b)],
            log := log w @ [''Recovery failed: '' @ e']\<rparr>
      | None \<Rightarrow>
          (case raises env (calls w @ [Plan [cartesian_ptp START_POSE] (tcp b),
                                      Execute [cartesian_ptp START_POSE] (tcp b)]) of
             Some e' \<Rightarrow>
               w\<lparr>calls := calls w @ [Plan [cartesian_ptp START_POSE] (tcp b),
                                      Execute [cartesian_ptp START_POSE] (tcp b)],
                 log := log w @ [''Recovery failed: '' @ e']\<rparr>
           | None \<Rightarrow>
               w\<lparr>calls := calls w @ [Plan [cartesian_ptp START_POSE] (tcp b),
                                      Execute [cartesian_ptp START_POSE] (tcp b)]\<rparr>))"
  unfolding recover_def run_block_connected[OF assms]
  by (simp add: move_def perform_def failure_def Let_def logger_error_def split: option.splits)

lemma stock_update:
  "stock (b\<lparr>inventory := AList.update k v (inventory b)\<rparr>) k' =
     (if k' = k then length v else stock b k')"
  by (simp add: stock_def update_conv')

lemma serve_popped_bartender: "fst (snd (serve_popped env bev p n (b, w))) = b"
  by (simp add: serve_popped_def split: sum.splits prod.splits)

lemma serve_beverage_stock:
  "stock (fst (snd (serve_beverage env t (b, w)))) k \<le> stock b k"
  by (auto simp: serve_beverage_def Let_def serve_popped_bartender stock_update
      split: option.splits list.splits) (simp add: stock_def)

lemma serve_beverage_error_pops:
  assumes "fst (serve_beverage env t (b, w)) = error_msg (lower t) e"
  shows "Suc (stock (fst (snd (serve_beverage env t (b, w)))) (lower t)) = stock b (lower t)"
proof -
  from assms obtain p ps where i: "initialized b" and m: "map_of (inventory b) (lower t) = Some (p # ps)"
    by (auto simp: serve_beverage_def Let_def msgs_distinct split: option.splits list.splits if_splits)
  show ?thesis
    by (simp add: serve_beverage_pop[OF i m] serve_popped_bartender stock_update) (simp add: stock_def m)
qed

lemma go_home_bartender: "fst (snd (go_home env (b, w))) = b"
  by (simp add: go_home_def split: sum.splits prod.splits)

lemma dispatch_stock:
  "stock (fst (snd (dispatch env name args (b, w)))) k \<le> stock b k"
  by (simp add: dispatch_def serve_beverage_stock go_home_bartender)

lemma connect_inventory: "inventory (fst (snd (connect env (b, w)))) = inventory b"
  by (simp add: connect_def fail_init_def Let_def split: sum.splits prod.splits)

lemma handle_call_tool_stock:
  assumes "initialized b \<or> inventory b = INITIAL_INVENTORY"
  shows "stock (fst (snd (handle_call_tool env name args (b, w)))) k \<le> stock b k"
proof (cases "initialized b")
  case True
  then show ?thesis by (simp add: handle_call_tool_def dispatch_stock)
next
  case False
  with assms have inv: "inventory b = INITIAL_INVENTORY" by simp
  then have same: "b\<lparr>inventory := INITIAL_INVENTORY\<rparr> = b" by simp
  obtain r b1 w1 where i: "initialize env (b, w) = (r, (b1, w1))"
    by (metis prod.exhaust)
  have "inventory b1 = inventory b"
    using i False connect_inventory[of env b w] by (simp add: initialize_def same)
  then have s1: "stock b1 k = stock b k" by (simp add: stock_def)
  show ?thesis
  proof (cases r)
    case None
    with i False s1 dispatch_stock[of env name args b1 w1 k] show ?thesis
      by (simp add: handle_call_tool_def)
  next
    case (Some e)
    with i False s1 show ?thesis by (simp add: handle_call_tool_def)
  qed
qed

section \<open>Facts about a robot that never raises\<close>












section \<open>Facts about lower-casing\<close>

lemma lower_char_idem: "lower_char (lower_char c) = lower_char c"
  by (simp add: lower_char_def)

lemma lower_idem: "lower (lower s) = lower s"
  by (simp add: lower_def lower_char_idem)

lemma serve_beverage_lower: "serve_beverage env (lower t) bw = serve_beverage env t bw"
  by (simp add: serve_beverage_def lower_idem Let_def)

lemma dict_get_single: "dict_get [(k, v)] k d = v"
  by (simp add: dict_get_def)

section \<open>Facts about the listener and the queue\<close>









lemma frames_append: "frames (xs @ ys) = frames xs @ frames ys"
  by (induction xs rule: frames.induct) simp_all

lemma frames_polls: "frames (replicate n Poll) = []"
  by (induction n) simp_all


section \<open>Facts about the outputs\<close>

lemma perform_seen:
  "seen (after (perform env c w)) \<subseteq> seen w \<union> set (line_states [c] (tool_out w))
   \<and> (\<forall>w'. perform env c w = Inr w' \<longrightarrow> tool_out w' = (case c of Write k v \<Rightarrow> set_tool_out k v (tool_out w) | _ \<Rightarrow> tool_out w))"
  by (cases c) (auto simp: perform_def Let_def seen_def after_def split: option.splits)

lemma line_states_cons:
  "set (line_states (c # cs) io) =
     set (line_states [c] io) \<union> set (line_states cs (case c of Write k v \<Rightarrow> set_tool_out k v io | _ \<Rightarrow> io))"
  by (cases c) auto

lemma perform_all_seen:
  "seen (after (perform_all env cs w)) \<subseteq> seen w \<union> set (line_states cs (tool_out w))"
proof (induction cs arbitrary: w)
  case Nil
  then show ?case by (simp add: after_def)
next
  case (Cons c cs)
  show ?case
  proof (cases "perform env c w")
    case (Inl ew)
    with perform_seen[of env c w] show ?thesis
      unfolding line_states_cons[of c cs] by auto
  next
    case (Inr w1)
    with perform_seen[of env c w] have
      s1: "seen w1 \<subseteq> seen w \<union> set (line_states [c] (tool_out w))"
      and t1: "tool_out w1 = (case c of Write k v \<Rightarrow> set_tool_out k v (tool_out w) | _ \<Rightarrow> tool_out w)"
      by (auto simp: after_def)
    from Cons.IH[of w1] Inr s1 show ?thesis
      unfolding line_states_cons[of c cs] t1[symmetric] by auto
  qed
qed

lemma issue_seen:
  "seen (after (issue env b c w)) \<subseteq> seen w \<union> set (line_states [c] (tool_out w))
   \<and> (\<forall>w'. issue env b c w = Inr w' \<longrightarrow> tool_out w' = (case c of Write k v \<Rightarrow> set_tool_out k v (tool_out w) | _ \<Rightarrow> tool_out w))"
proof -
  have "issue env b c w = perform env c w \<or> issue env b c w = Inl (attribute_error c, w)"
    by (cases c) (auto simp: invoke_def split: option.splits)
  then show ?thesis
    using perform_seen[of env c w] by (auto simp: after_def)
qed

lemma run_block_seen:
  "seen (after (run_block env b cs w)) \<subseteq> seen w \<union> set (line_states cs (tool_out w))"
proof (induction cs arbitrary: w)
  case Nil
  then show ?case by (simp add: after_def)
next
  case (Cons c cs)
  show ?case
  proof (cases "issue env b c w")
    case (Inl ew)
    with issue_seen[of env b c w] show ?thesis
      unfolding line_states_cons[of c cs] by auto
  next
    case (Inr w1)
    with issue_seen[of env b c w] have
      s1: "seen w1 \<subseteq> seen w \<union> set (line_states [c] (tool_out w))"
      and t1: "tool_out w1 = (case c of Write k v \<Rightarrow> set_tool_out k v (tool_out w) | _ \<Rightarrow> tool_out w)"
      by (auto simp: after_def)
    from Cons.IH[of w1] Inr s1 show ?thesis
      unfolding line_states_cons[of c cs] t1[symmetric] by auto
  qed
qed

lemma logger_error_seen: "seen (logger_error m w) = seen w"
  by (simp add: seen_def logger_error_def)

lemma recover_seen: "seen (recover env b w) \<subseteq> seen w"
  using run_block_seen[of env b "move [cartesian_ptp START_POSE] (tcp b)" w]
  by (auto simp: recover_def move_def after_def logger_error_seen split: sum.splits)

lemma serve_block_lines:
  "(True, True) \<notin> set (line_states (serve_block p t) io)"
  by (cases io) (simp add: serve_block_def move_def set_tool_out_def)

text \<open>
  The serve of the MCP bartender never asserts both outputs: its two actuations de-assert
  one output before they assert the other, and a call that raises ends the block.
\<close>

lemma mcp_serve_exclusive:
  assumes "(True, True) \<notin> seen w"
  shows "(True, True) \<notin> seen (snd (snd (serve_beverage env t (b, w))))"
proof -
  have p: "\<And>bev p n b. (True, True) \<notin> seen (snd (snd (serve_popped env bev p n (b, w))))"
  proof -
    fix bev p n b
    from run_block_seen[of env b "serve_block p (tcp b)" w] serve_block_lines[of p "tcp b" "tool_out w"] assms
    have "(True, True) \<notin> seen (after (run_block env b (serve_block p (tcp b)) w))"
      by auto
    then show "(True, True) \<notin> seen (snd (snd (serve_popped env bev p n (b, w))))"
      using recover_seen
      by (auto simp: serve_popped_def after_def logger_error_seen split: sum.splits dest!: subsetD[OF recover_seen])
  qed
  show ?thesis
    using assms p by (auto simp: serve_beverage_def Let_def split: option.splits list.splits)
qed

lemma serve_block_voice_lines:
  "(True, True) \<notin> set (line_states (serve_block_voice p t) (a, False))"
  by (simp add: serve_block_voice_def move_def set_tool_out_def initialize_grippers_def
      close_grippers_def open_grippers_def)

lemma recover_voice_seen: "seen (recover_voice env t w) \<subseteq> seen w"
  using perform_all_seen[of env "move [cartesian_ptp start_pose] (Some t)" w]
  by (auto simp: recover_voice_def move_def after_def logger_error_seen split: sum.splits)

text \<open>
  The serve of the voice program keeps the outputs exclusive when it starts with
  \<open>tool_out[1]\<close> de-asserted.
\<close>

lemma voice_serve_exclusive:
  assumes "(True, True) \<notin> seen w" and "snd (tool_out w) = False"
  shows "(True, True) \<notin> seen (snd (snd (serve_beverage_voice env bev t (iv, w))))"
proof -
  have p: "\<And>p iv'. (True, True) \<notin> seen (snd (snd (serve_popped_voice env bev p t (iv', w))))"
  proof -
    fix p iv'
    from assms(2) have io: "tool_out w = (fst (tool_out w), False)"
      by (cases "tool_out w") simp
    from perform_all_seen[of env "serve_block_voice p t" w]
      serve_block_voice_lines[of p t "fst (tool_out w)"] assms(1) io
    have "(True, True) \<notin> seen (after (perform_all env (serve_block_voice p t) w))"
      by auto
    then show "(True, True) \<notin> seen (snd (snd (serve_popped_voice env bev p t (iv', w))))"
      by (auto simp: serve_popped_voice_def after_def logger_error_seen split: sum.splits
          dest!: subsetD[OF recover_voice_seen])
  qed
  show ?thesis
    using assms(1) p
    by (auto simp: serve_beverage_voice_def logger_error_seen split: option.splits list.splits)
qed

section \<open>Unknown and sold-out beverages\<close>

text \<open>
  C3. Whatever the bartender and the world are: a serve with a token that (lower-cased) is
  not a key of the inventory, or is a key whose pose list is empty, returns a failure text
  and leaves bartender and world as they were: nothing is popped, no call is issued.
\<close>

theorem serve_rejects_without_effect:
  assumes "map_of (inventory b) (lower t) = None \<or> map_of (inventory b) (lower t) = Some []"
  shows "snd (serve_beverage env t (b, w)) = (b, w)
       \<and> is_failure (fst (serve_beverage env t (b, w)))
       \<and> fst (serve_beverage env t (b, w)) =
           (if \<not> initialized b then not_initialized_msg
            else if map_of (inventory b) (lower t) = None
              then unknown_msg (lower t) (map fst (inventory b))
            else out_of_stock_msg (lower t))"
  using assms
  by (auto simp: serve_beverage_def is_failure_def not_initialized_msg_def unknown_msg_def
      out_of_stock_msg_def cross_mark_def)

theorem serve_rejects_without_effect_witness:
  "snd (serve_beverage quiet ''STING'' (ready, world0)) = (ready, world0)
   \<and> is_failure (fst (serve_beverage quiet ''STING'' (ready, world0)))
   \<and> fst (serve_beverage quiet ''STING'' (ready, world0))
       = unknown_msg ''sting'' [''coke'', ''redbull'', ''fanta'']
   \<and> snd (serve_beverage quiet ''Fanta'' (ready\<lparr>inventory := [(''fanta'', [])]\<rparr>, world0))
       = (ready\<lparr>inventory := [(''fanta'', [])]\<rparr>, world0)
   \<and> fst (serve_beverage quiet ''Fanta'' (ready\<lparr>inventory := [(''fanta'', [])]\<rparr>, world0))
       = out_of_stock_msg ''fanta''"
  using serve_rejects_without_effect [of ready "''STING''" quiet world0]
    serve_rejects_without_effect [of "ready\<lparr>inventory := [(''fanta'', [])]\<rparr>" "''Fanta''" quiet world0]
  by (simp add: ready_def INITIAL_INVENTORY_def lower_STING lower_Fanta is_failure_def unknown_msg_def cross_mark_def)

section \<open>Stock after a failed serve\<close>

text \<open>
  C2. Once the inventory exists (the bartender is initialized, or an \<open>initialize\<close> that
  failed has left the initial inventory behind), no tool call makes the pose list of any
  beverage longer; nor does a serve on any bartender. A serve that ends with the text of a
  step failure has popped one pose and leaves the stock of its beverage (the token
  lower-cased) at one less than before the serve: the recovery does not put the pose back.
\<close>

theorem stock_never_restored:
  "(initialized b \<or> inventory b = INITIAL_INVENTORY \<longrightarrow>
      (\<forall>k. stock (fst (snd (handle_call_tool env name args (b, w)))) k \<le> stock b k))
   \<and> (\<forall>k. stock (fst (snd (serve_beverage env t (b, w)))) k \<le> stock b k)
   \<and> (fst (serve_beverage env t (b, w)) = error_msg (lower t) e \<longrightarrow>
        Suc (stock (fst (snd (serve_beverage env t (b, w)))) (lower t)) = stock b (lower t))"
  by (simp add: handle_call_tool_stock serve_beverage_stock serve_beverage_error_pops)

theorem stock_never_restored_witness:
  "initialized ready
   \<and> fst (serve_beverage jammed ''Coke'' (ready, world0)) = error_msg ''coke'' ''collision detected''
   \<and> stock ready ''coke'' = 2
   \<and> stock (fst (snd (serve_beverage jammed ''Coke'' (ready, world0)))) ''coke'' = 1
   \<and> stock (fst (snd (handle_call_tool jammed ''serve_drink'' [(''beverage'', ''Coke'')] (ready, world0)))) ''coke'' \<le> 2"
proof -
  note fact = stock_never_restored [of ready jammed "''serve_drink''" "[(''beverage'', ''Coke'')]"
      world0 "''Coke''" "''collision detected''"]
  from fact have a:
    "stock (fst (snd (handle_call_tool jammed ''serve_drink'' [(''beverage'', ''Coke'')]
       (ready, world0)))) ''coke'' \<le> stock ready ''coke''"
    by (simp add: ready_fields)
  from fact serve_jammed_Coke have b:
    "Suc (stock (fst (snd (serve_beverage jammed ''Coke'' (ready, world0)))) ''coke'')
       = stock ready ''coke''"
    by (simp add: lower_Coke)
  show ?thesis
    using a b serve_jammed_Coke by (simp add: ready_fields stock_ready_coke)
qed

section \<open>Failure and recovery\<close>

text \<open>
  C4. On a bartender that is initialized and connected, with a pose in stock: when call
  \<open>k\<close> of the serve's block is the first to raise, with message \<open>e\<close>, the calls after it
  are not issued; the recovery issues one plan of the move home and, when the plan returns,
  one execution of it; a failure of the recovery adds the record \<open>Recovery failed\<close> to
  the log and nothing else; the text returned reports \<open>e\<close>, never the recovery's message.
\<close>

theorem step_failure_recovery:
  assumes "initialized b" and "motion_group b = Some m" and "controller b = Some c"
    and "map_of (inventory b) (lower t) = Some (p # ps)"
    and "k < length (serve_block p (tcp b))"
    and "failure env (serve_block p (tcp b) ! k)
           (calls w @ take (Suc k) (serve_block p (tcp b))) = Some e"
    and "\<forall>j<k. failure env (serve_block p (tcp b) ! j)
           (calls w @ take (Suc j) (serve_block p (tcp b))) = None"
  shows "fst (serve_beverage env t (b, w)) = error_msg (lower t) e
       \<and> (let w' = snd (snd (serve_beverage env t (b, w)));
              attempted = calls w @ take (Suc k) (serve_block p (tcp b));
              plan_home = Plan [cartesian_ptp START_POSE] (tcp b);
              execute_home = Execute [cartesian_ptp START_POSE] (tcp b);
              logged = log w @ [''Error serving '' @ lower t @ '': '' @ e]
          in case raises env (attempted @ [plan_home]) of
               Some e' \<Rightarrow>
                 calls w' = attempted @ [plan_home]
                 \<and> log w' = logged @ [''Recovery failed: '' @ e']
             | None \<Rightarrow>
                 calls w' = attempted @ [plan_home, execute_home]
                 \<and> log w' =
                     (case raises env (attempted @ [plan_home, execute_home]) of
                        Some e' \<Rightarrow> logged @ [''Recovery failed: '' @ e']
                      | None \<Rightarrow> logged))"
proof -
  let ?b' = "b\<lparr>inventory := AList.update (lower t) ps (inventory b)\<rparr>"
  have eq: "serve_beverage env t (b, w) = serve_popped env (lower t) p (length ps) (?b', w)"
    using assms(1,4) by (rule serve_beverage_pop)
  obtain w1 where blk: "perform_all env (serve_block p (tcp b)) w = Inl (e, w1)"
    and c1: "calls w1 = calls w @ take (Suc k) (serve_block p (tcp b))"
    and l1: "log w1 = log w"
    using perform_all_first_failure[OF assms(5,6,7)] by blast
  have rb: "run_block env ?b' (serve_block p (tcp ?b')) w = Inl (e, w1)"
    using blk assms(2,3) by (simp add: run_block_connected)
  have res: "serve_popped env (lower t) p (length ps) (?b', w) =
      (error_msg (lower t) e,
       (?b', recover env ?b' (logger_error (''Error serving '' @ lower t @ '': '' @ e) w1)))"
    using rb by (simp add: serve_popped_def)
  have rec: "recover env ?b' = recover env b"
    by (rule ext) (simp add: recover_def run_block_connected[OF assms(2,3)]
        run_block_connected[of ?b' m c] assms(2,3))
  show ?thesis
    unfolding eq res rec recover_result[OF assms(2,3)]
    by (simp add: Let_def logger_error_def c1 l1 split: option.splits)
qed

theorem step_failure_recovery_witness:
  "fst (serve_beverage jammed ''Coke'' (ready, world0)) = error_msg ''coke'' ''collision detected''
   \<and> calls (snd (snd (serve_beverage jammed ''Coke'' (ready, world0)))) =
       take 7 (serve_block COKE_0 (Some ''Gripper''))
       @ [Plan [cartesian_ptp START_POSE] (Some ''Gripper''),
          Execute [cartesian_ptp START_POSE] (Some ''Gripper'')]
   \<and> log (snd (snd (serve_beverage jammed ''Coke'' (ready, world0)))) =
       [''Error serving coke: collision detected'']
   \<and> fst (serve_beverage stuck ''Coke'' (ready, world0)) = error_msg ''coke'' ''pick unreachable''
   \<and> calls (snd (snd (serve_beverage stuck ''Coke'' (ready, world0)))) =
       take 2 (serve_block COKE_0 (Some ''Gripper''))
       @ [Plan [cartesian_ptp START_POSE] (Some ''Gripper''),
          Execute [cartesian_ptp START_POSE] (Some ''Gripper'')]
   \<and> log (snd (snd (serve_beverage stuck ''Coke'' (ready, world0)))) =
       [''Error serving coke: pick unreachable'', ''Recovery failed: home unreachable'']"
proof -
  have a: "fst (serve_beverage jammed ''Coke'' (ready, world0)) = error_msg ''coke'' ''collision detected''
   \<and> calls (snd (snd (serve_beverage jammed ''Coke'' (ready, world0)))) =
       take 7 (serve_block COKE_0 (Some ''Gripper''))
       @ [Plan [cartesian_ptp START_POSE] (Some ''Gripper''),
          Execute [cartesian_ptp START_POSE] (Some ''Gripper'')]
   \<and> log (snd (snd (serve_beverage jammed ''Coke'' (ready, world0)))) =
       [''Error serving coke: collision detected'']"
    using step_failure_recovery [of ready "Motion_group_handle CONTROLLER_NAME 0"
        "Controller_handle CONTROLLER_NAME" "''Coke''" COKE_0 "[COKE_1]" 6 jammed world0
        "''collision detected''"]
      jammed_first_failure jammed_recovery
    by (simp add: ready_fields ready_coke lower_Coke serve_block_length Let_def)
       (simp add: world0_def)
  have b: "fst (serve_beverage stuck ''Coke'' (ready, world0)) = error_msg ''coke'' ''pick unreachable''
   \<and> calls (snd (snd (serve_beverage stuck ''Coke'' (ready, world0)))) =
       take 2 (serve_block COKE_0 (Some ''Gripper''))
       @ [Plan [cartesian_ptp START_POSE] (Some ''Gripper''),
          Execute [cartesian_ptp START_POSE] (Some ''Gripper'')]
   \<and> log (snd (snd (serve_beverage stuck ''Coke'' (ready, world0)))) =
       [''Error serving coke: pick unreachable'', ''Recovery failed: home unreachable'']"
    using step_failure_recovery [of ready "Motion_group_handle CONTROLLER_NAME 0"
        "Controller_handle CONTROLLER_NAME" "''Coke''" COKE_0 "[COKE_1]" 1 stuck world0
        "''pick unreachable''"]
      stuck_first_failure stuck_recovery
    by (simp add: ready_fields ready_coke lower_Coke serve_block_length Let_def)
       (simp add: world0_def numeral_2_eq_2)
  from a b show ?thesis by simp
qed

section \<open>The order of the steps\<close>



section \<open>Counting down the stock\<close>




section \<open>Initializing twice\<close>

text \<open>
  C10. \<open>initialize\<close> on a bartender whose \<open>initialized\<close> flag is set returns at once and
  raises nothing; the bartender is as before in every field (the inventory is not reset)
  and so is the world (no connection, no motion, no record in the log).
\<close>

theorem initialize_again_is_noop:
  assumes "initialized b"
  shows "initialize env (b, w) = (None, (b, w))"
  using assms by (simp add: initialize_def)

theorem initialize_again_is_noop_witness:
  "initialized (ready\<lparr>inventory := [(''coke'', [COKE_1])]\<rparr>)
   \<and> initialize jammed (ready\<lparr>inventory := [(''coke'', [COKE_1])]\<rparr>, world0)
       = (None, (ready\<lparr>inventory := [(''coke'', [COKE_1])]\<rparr>, world0))"
  using initialize_again_is_noop [of "ready\<lparr>inventory := [(''coke'', [COKE_1])]\<rparr>" jammed world0]
  by (simp add: ready_fields)

section \<open>An unknown beverage in any casing\<close>

text \<open>
  C9. On an initialized bartender whose inventory has no key \<open>sting\<close>, a serve of any
  casing of \<open>sting\<close> returns the unknown-beverage text and changes nothing, through
  \<open>serve_beverage\<close> and through the tool \<open>serve_drink\<close>. For every bartender, world and
  token, the result for the token is the result for its lower-cased form.
\<close>

theorem sting_unknown_in_any_casing:
  assumes "initialized b" and "map_of (inventory b) ''sting'' = None" and "lower t = ''sting''"
  shows "serve_beverage env t (b, w) = (unknown_msg ''sting'' (map fst (inventory b)), (b, w))
       \<and> handle_call_tool env ''serve_drink'' [(''beverage'', t)] (b, w)
           = (unknown_msg ''sting'' (map fst (inventory b)), (b, w))
       \<and> serve_beverage env' t' bw' = serve_beverage env' (lower t') bw'
       \<and> handle_call_tool env' ''serve_drink'' [(''beverage'', t')] bw'
           = handle_call_tool env' ''serve_drink'' [(''beverage'', lower t')] bw'"
proof -
  have a: "serve_beverage env t (b, w) = (unknown_msg ''sting'' (map fst (inventory b)), (b, w))"
    using assms by (simp add: serve_beverage_def)
  have d: "\<And>e x s. dispatch e ''serve_drink'' [(''beverage'', x)] s = serve_beverage e x s"
    by (simp add: dispatch_def dict_get_single)
  have b: "handle_call_tool env ''serve_drink'' [(''beverage'', t)] (b, w)
      = (unknown_msg ''sting'' (map fst (inventory b)), (b, w))"
    using assms(1) a by (simp add: handle_call_tool_def d)
  have c: "handle_call_tool env' ''serve_drink'' [(''beverage'', t')] bw'
      = handle_call_tool env' ''serve_drink'' [(''beverage'', lower t')] bw'"
    by (simp add: handle_call_tool_def d serve_beverage_lower split: prod.splits option.splits)
  show ?thesis
    using a b c by (simp add: serve_beverage_lower)
qed

theorem sting_unknown_in_any_casing_witness:
  "serve_beverage quiet ''STING'' (ready, world0)
     = (unknown_msg ''sting'' [''coke'', ''redbull'', ''fanta''], (ready, world0))
   \<and> handle_call_tool quiet ''serve_drink'' [(''beverage'', ''STING'')] (ready, world0)
     = (unknown_msg ''sting'' [''coke'', ''redbull'', ''fanta''], (ready, world0))
   \<and> serve_beverage quiet ''STING'' (ready, world0) = serve_beverage quiet ''sting'' (ready, world0)"
proof -
  note fact = sting_unknown_in_any_casing [OF ready_fields(1) ready_no_sting lower_STING,
      of quiet world0 quiet "''STING''" "(ready, world0)"]
  note a = fact [THEN conjunct1, unfolded ready_keys]
  note b = fact [THEN conjunct2, THEN conjunct1, unfolded ready_keys]
  note c = fact [THEN conjunct2, THEN conjunct2, THEN conjunct1, unfolded lower_STING]
  from a b c show ?thesis by (intro conjI)
qed

section \<open>Frames in the command state\<close>



section \<open>The order of the hand-off\<close>


text \<open>Two orders for coke in a row are queued twice and served twice.\<close>

lemma two_orders_in_a_row:
  "handed (run quiet ''Gripper'' [Hear order_coke, Hear wake_word, Hear order_coke, Poll, Poll, Poll]
     awake) = [''fanta'', ''coke'', ''coke'']"
  by code_simp

section \<open>Both outputs asserted\<close>

text \<open>
  C7. In the voice program the two outputs can both be asserted: \<open>initialize_grippers\<close>
  asserts \<open>tool_out[0]\<close> before it de-asserts \<open>tool_out[1]\<close>. When a serve fails between closing and opening the
  gripper (here: the delivery collides), \<open>tool_out[1]\<close> stays asserted, and the next serve
  has both outputs asserted after its first write.
\<close>

theorem voice_outputs_both_asserted:
  "tool_out (snd (snd (serve_beverage_voice jammed ''coke'' ''Gripper'' (INVENTORY, world0))))
     = (False, True)
   \<and> (True, True) \<in> seen (snd (snd
      (serve_beverage_voice jammed ''coke'' ''Gripper''
        (snd (serve_beverage_voice jammed ''coke'' ''Gripper'' (INVENTORY, world0))))))"
  by code_simp

end
